theory Spec2Isabelle
  imports Main "HOL-Library.Multiset" "HOL-Library.Word"
begin

section \<open>Shared vocabulary of the client\<close>

text \<open>
  Free text typed by users (post content, comment text, names) is processed code unit by
  code unit (\<open>trim\<close>, \<open>split\<close>, \<open>substring\<close>), so it is a list of UTF-16 code units,
  as a JavaScript string is. Identifiers and enumeration tags (role, status) are only
  ever compared with \<open>===\<close> against each other or against ASCII literals; they are kept
  as plain strings.
\<close>

type_synonym js_string = "16 word list"
type_synonym ident = string

text \<open>
  Every handler awaits at most one mutation request. The promise either rejects (any
  network or server failure: the \<open>catch\<close> branch) or resolves with the response body.
\<close>

datatype 'a response = Rejected | Resolved 'a

text \<open>
  What a handler does to the outside world, in program order: requests handed to the
  HTTP client, \<open>window.confirm\<close> prompts with the answer given, notifications, and the
  page reload of the profile view.
\<close>

datatype http_method = GET | POST | PUT | DELETE

datatype effect =
    Request http_method string
  | Confirm bool
  | ToastError
  | ToastSuccess
  | ConsoleError
  | Reload

fun is_request :: "effect \<Rightarrow> bool" where
  "is_request (Request m u) = True"
| "is_request e = False"

section \<open>Array.prototype.sort\<close>

text \<open>
  \<open>xs.sort(cmp)\<close> is a stable sort (ECMAScript 2019): of two elements that \<open>cmp\<close> does not
  order strictly, the one that came first stays first. For a consistent comparator the
  result is determined by that; it is computed here by stable insertion, an element
  going in front of the first one it does not exceed.
\<close>

fun insert_by :: "('a \<Rightarrow> 'a \<Rightarrow> int) \<Rightarrow> 'a \<Rightarrow> 'a list \<Rightarrow> 'a list" where
  "insert_by cmp x [] = [x]"
| "insert_by cmp x (y # ys) =
     (if cmp x y \<le> 0 then x # y # ys else y # insert_by cmp x ys)"

definition js_sort :: "('a \<Rightarrow> 'a \<Rightarrow> int) \<Rightarrow> 'a list \<Rightarrow> 'a list" where
  "js_sort cmp xs = foldr (insert_by cmp) xs []"

section \<open>String helpers\<close>

text \<open>
  \<open>String.prototype.trim\<close> removes the leading and trailing code units that are
  WhiteSpace or LineTerminator in ECMAScript: TAB, LF, VT, FF, CR, SPACE, NBSP, the
  Unicode space separators, LS, PS and the byte order mark.
\<close>

definition js_whitespace :: "16 word \<Rightarrow> bool" where
  "js_whitespace c \<longleftrightarrow>
     c \<in> {0x9, 0xA, 0xB, 0xC, 0xD, 0x20, 0xA0, 0x1680, 0x2028, 0x2029, 0x202F, 0x205F,
          0x3000, 0xFEFF} \<or> (0x2000 \<le> c \<and> c \<le> 0x200A)"

definition trim :: "js_string \<Rightarrow> js_string" where
  "trim s = rev (dropWhile js_whitespace (rev (dropWhile js_whitespace s)))"

text \<open>\<open>!s.trim()\<close>: the empty string is the only falsy string.\<close>

definition blank :: "js_string \<Rightarrow> bool" where
  "blank s \<longleftrightarrow> trim s = []"

text \<open>
  \<open>s.split(sep)\<close> for a one-unit separator: the pieces between the separators, empty
  pieces included; the empty string gives one empty piece.
\<close>

fun split_on :: "'a \<Rightarrow> 'a list \<Rightarrow> 'a list list" where
  "split_on sep [] = [[]]"
| "split_on sep (c # cs) =
     (if c = sep then [] # split_on sep cs
      else (c # hd (split_on sep cs)) # tl (split_on sep cs))"

text \<open>\<open>n[0]\<close> is \<open>undefined\<close> on the empty string; \<open>join('')\<close> renders \<open>undefined\<close> as nothing.\<close>

definition first_unit :: "'a list \<Rightarrow> 'a option" where
  "first_unit n = (case n of [] \<Rightarrow> None | c # cs \<Rightarrow> Some c)"

definition join_units :: "'a option list \<Rightarrow> 'a list" where
  "join_units xs = concat (map (\<lambda>x. case x of None \<Rightarrow> [] | Some c \<Rightarrow> [c]) xs)"

text \<open>
  \<open>getInitials\<close> of the post card and of the profile view (the feed header inlines the
  same chain). \<open>String.prototype.toUpperCase\<close> is the host's Unicode mapping, which can
  change the length of a string; it is the parameter \<open>upper\<close>.
\<close>

definition getInitials :: "(js_string \<Rightarrow> js_string) \<Rightarrow> js_string \<Rightarrow> js_string" where
  "getInitials upper name =
     take 2 (upper (join_units (map first_unit (split_on 0x20 name))))"

text \<open>
  The words of a string: the maximal non-empty runs of code units that are not
  separators, in order. This is the reading of "separated words" that the initials are
  compared with.
\<close>

function words_by :: "('a \<Rightarrow> bool) \<Rightarrow> 'a list \<Rightarrow> 'a list list" where
  "words_by sep [] = []"
| "words_by sep (c # cs) =
     (if sep c then words_by sep cs
      else (c # takeWhile (\<lambda>x. \<not> sep x) cs) # words_by sep (dropWhile (\<lambda>x. \<not> sep x) cs))"
  by pat_completeness auto
termination
  by (relation "measure (\<lambda>(sep, cs). length cs)")
     (auto simp: length_dropWhile_le less_Suc_eq_le)

definition initials_of_words ::
  "('a \<Rightarrow> bool) \<Rightarrow> ('a list \<Rightarrow> 'a list) \<Rightarrow> 'a list \<Rightarrow> 'a list" where
  "initials_of_words sep upper name = take 2 (upper (map hd (words_by sep name)))"

text \<open>
  \<open>toUpperCase\<close> on strings of ASCII code units: the letters a to z move to A to Z and
  nothing else changes. It stands for the host's mapping at concrete ASCII inputs.
\<close>

definition ascii_upper :: "js_string \<Rightarrow> js_string" where
  "ascii_upper s = map (\<lambda>c. if 0x61 \<le> c \<and> c \<le> 0x7A then c - 0x20 else c) s"

section \<open>Feed\<close>

text \<open>
  An event as the feed sidebar uses it. \<open>start_date\<close> and \<open>end_date\<close> hold the time values
  (milliseconds since the epoch) of \<open>new Date(event.start_date)\<close> and
  \<open>new Date(event.end_date)\<close>; the comparator subtracts two such values. The server sends
  well-formed date strings; a string that does not parse (an Invalid Date, whose time
  value is NaN) is outside this model.
\<close>

record cal_event =
  ev_id :: ident
  title :: js_string
  start_date :: int
  end_date :: int

text \<open>
  \<open>likes\<close> is optional in the source (\<open>post.likes?.length\<close>, \<open>post.likes?.includes\<close>).
\<close>

record post =
  post_id :: ident
  post_user_id :: ident
  post_user_name :: js_string
  post_content :: js_string
  post_category :: string
  likes :: "ident list option"

record new_post_form =
  np_content :: js_string
  np_image_url :: js_string
  np_category :: string

record feed_state =
  posts :: "post list"
  events :: "cal_event list"
  showNewPost :: bool
  newPost :: new_post_form
  categoryFilter :: string

definition upcoming :: "int \<Rightarrow> cal_event list \<Rightarrow> cal_event list" where
  "upcoming now evs =
     take 5 (js_sort (\<lambda>a b. start_date a - start_date b)
               (filter (\<lambda>event. end_date event > now) evs))"

definition fetchUpcomingEvents ::
  "feed_state \<Rightarrow> int \<Rightarrow> cal_event list response \<Rightarrow> feed_state \<times> effect list" where
  "fetchUpcomingEvents st now resp =
     (case resp of
        Resolved evs \<Rightarrow> (st\<lparr>events := upcoming now evs\<rparr>, [Request GET ''/events''])
      | Rejected \<Rightarrow> (st, [Request GET ''/events'', ConsoleError]))"

definition empty_new_post :: new_post_form where
  "empty_new_post = \<lparr>np_content = [], np_image_url = [], np_category = ''general''\<rparr>"

definition handleCreatePost :: "feed_state \<Rightarrow> post response \<Rightarrow> feed_state \<times> effect list" where
  "handleCreatePost st resp =
     (if blank (np_content (newPost st)) then (st, [ToastError])
      else case resp of
        Resolved p \<Rightarrow>
          (st\<lparr>posts := p # posts st, newPost := empty_new_post, showNewPost := False\<rparr>,
           [Request POST ''/posts'', ToastSuccess])
      | Rejected \<Rightarrow> (st, [Request POST ''/posts'', ToastError]))"

text \<open>
  The handlers that ask first take the user's answer to \<open>window.confirm\<close> as
  \<open>confirmed\<close>.
\<close>

definition handleDeletePost ::
  "feed_state \<Rightarrow> ident \<Rightarrow> bool \<Rightarrow> unit response \<Rightarrow> feed_state \<times> effect list" where
  "handleDeletePost st postId confirmed resp =
     (if \<not> confirmed then (st, [Confirm False])
      else case resp of
        Resolved u \<Rightarrow>
          (st\<lparr>posts := filter (\<lambda>p. post_id p \<noteq> postId) (posts st)\<rparr>,
           [Confirm True, Request DELETE (''/posts/'' @ postId), ToastSuccess])
      | Rejected \<Rightarrow>
          (st, [Confirm True, Request DELETE (''/posts/'' @ postId), ToastError]))"

section \<open>Post card\<close>

record comment =
  comment_id :: ident
  comment_user_id :: ident
  comment_user_name :: js_string
  comment_content :: js_string

record post_state =
  liked :: bool
  likesCount :: nat
  showComments :: bool
  comments :: "comment list"
  commentsCount :: int
  newComment :: js_string
  loadingComments :: bool

text \<open>
  The state after mounting: the \<open>useState\<close> initial values, with \<open>liked\<close> as the mount
  effect sets it from \<open>post.likes?.includes(currentUser.id) || false\<close>.
\<close>

definition mount_post :: "post \<Rightarrow> ident \<Rightarrow> post_state" where
  "mount_post p currentUserId =
     \<lparr>liked = (case likes p of None \<Rightarrow> False | Some l \<Rightarrow> currentUserId \<in> set l),
      likesCount = (case likes p of None \<Rightarrow> 0 | Some l \<Rightarrow> length l),
      showComments = False, comments = [], commentsCount = 0, newComment = [],
      loadingComments = False\<rparr>"

definition comments_url :: "post \<Rightarrow> string" where
  "comments_url p = ''/posts/'' @ post_id p @ ''/comments''"

definition loadCommentsCount ::
  "post_state \<Rightarrow> post \<Rightarrow> comment list response \<Rightarrow> post_state \<times> effect list" where
  "loadCommentsCount st p resp =
     (case resp of
        Resolved cs \<Rightarrow> (st\<lparr>commentsCount := int (length cs)\<rparr>, [Request GET (comments_url p)])
      | Rejected \<Rightarrow> (st, [Request GET (comments_url p), ConsoleError]))"

text \<open>The body of the like response is \<open>{likes: n}\<close>, the new total.\<close>

definition handleLike ::
  "post_state \<Rightarrow> post \<Rightarrow> nat response \<Rightarrow> post_state \<times> effect list" where
  "handleLike st p resp =
     (case resp of
        Resolved n \<Rightarrow>
          (st\<lparr>likesCount := n, liked := \<not> liked st\<rparr>,
           [Request POST (''/posts/'' @ post_id p @ ''/like'')])
      | Rejected \<Rightarrow> (st, [Request POST (''/posts/'' @ post_id p @ ''/like''), ToastError]))"

definition fetchComments ::
  "post_state \<Rightarrow> post \<Rightarrow> comment list response \<Rightarrow> post_state \<times> effect list" where
  "fetchComments st p resp =
     (if length (comments st) > 0 then (st\<lparr>showComments := \<not> showComments st\<rparr>, [])
      else case resp of
        Resolved cs \<Rightarrow>
          (st\<lparr>comments := cs, showComments := True, loadingComments := False\<rparr>,
           [Request GET (comments_url p)])
      | Rejected \<Rightarrow>
          (st\<lparr>loadingComments := False\<rparr>, [Request GET (comments_url p), ToastError]))"

definition handleComment ::
  "post_state \<Rightarrow> post \<Rightarrow> comment response \<Rightarrow> post_state \<times> effect list" where
  "handleComment st p resp =
     (if blank (newComment st) then (st, [])
      else case resp of
        Resolved c \<Rightarrow>
          (st\<lparr>comments := comments st @ [c], commentsCount := commentsCount st + 1,
              newComment := []\<rparr>,
           [Request POST (comments_url p), ToastSuccess])
      | Rejected \<Rightarrow> (st, [Request POST (comments_url p), ToastError]))"

definition handleDeleteComment ::
  "post_state \<Rightarrow> ident \<Rightarrow> bool \<Rightarrow> unit response \<Rightarrow> post_state \<times> effect list" where
  "handleDeleteComment st commentId confirmed resp =
     (if \<not> confirmed then (st, [Confirm False])
      else case resp of
        Resolved u \<Rightarrow>
          (st\<lparr>comments := filter (\<lambda>c. comment_id c \<noteq> commentId) (comments st),
              commentsCount := commentsCount st - 1\<rparr>,
           [Confirm True, Request DELETE (''/comments/'' @ commentId), ToastSuccess])
      | Rejected \<Rightarrow>
          (st, [Confirm True, Request DELETE (''/comments/'' @ commentId), ToastError]))"

text \<open>
  Whether every request of a trace comes after a \<open>window.confirm\<close> that was answered
  yes; \<open>ok\<close> says whether such an answer has been seen so far.
\<close>

fun requests_confirmed :: "bool \<Rightarrow> effect list \<Rightarrow> bool" where
  "requests_confirmed ok [] = True"
| "requests_confirmed ok (Confirm b # es) = requests_confirmed (ok \<or> b) es"
| "requests_confirmed ok (Request m u # es) = (ok \<and> requests_confirmed ok es)"
| "requests_confirmed ok (e # es) = requests_confirmed ok es"

subsection \<open>The like endpoint\<close>

text \<open>
  Modelled from the spec: the backend's handler of \<open>POST /posts/{id}/like\<close> is not part
  of the client sources. The spec says that a like toggle flips exactly the current
  user's membership in the post's like set and that the server returns the new total
  like count. The like set is the array of user ids that a post carries.
\<close>

definition server_toggle_like :: "ident \<Rightarrow> ident list \<Rightarrow> ident list" where
  "server_toggle_like u ls = (if u \<in> set ls then removeAll u ls else ls @ [u])"

text \<open>
  A run of successful like toggles by one user: each round the server toggles the
  membership and the card handles the response carrying the new total.
\<close>

fun like_rounds :: "nat \<Rightarrow> ident \<Rightarrow> post \<Rightarrow> ident list \<times> post_state \<Rightarrow> ident list \<times> post_state" where
  "like_rounds 0 u p cfg = cfg"
| "like_rounds (Suc n) u p (srv, st) =
     like_rounds n u p
       (server_toggle_like u srv,
        fst (handleLike st p (Resolved (length (server_toggle_like u srv)))))"

text \<open>The like set a post arrives with (\<open>post.likes\<close>, absent meaning none).\<close>

definition post_likes :: "post \<Rightarrow> ident list" where
  "post_likes p = (case likes p of None \<Rightarrow> [] | Some l \<Rightarrow> l)"

text \<open>
  Single-user interaction: nobody but \<open>u\<close> is in the like set, the card shows the size
  of the set and \<open>liked\<close> says whether \<open>u\<close> is in it.
\<close>

definition like_inv :: "ident \<Rightarrow> ident list \<times> post_state \<Rightarrow> bool" where
  "like_inv u cfg \<longleftrightarrow>
     set (fst cfg) \<subseteq> {u} \<and> distinct (fst cfg)
     \<and> likesCount (snd cfg) = length (fst cfg) \<and> liked (snd cfg) = (u \<in> set (fst cfg))"

section \<open>Events and attendance\<close>

record attendance =
  att_id :: ident
  att_event_id :: ident
  att_user_id :: ident
  att_user_name :: js_string
  att_status :: string

text \<open>The fields of the new-event form are the strings of its inputs.\<close>

record new_event_form =
  ne_title :: js_string
  ne_description :: js_string
  ne_location :: js_string
  ne_start_date :: js_string
  ne_end_date :: js_string
  ne_category :: string

record events_state =
  all_events :: "cal_event list"
  showNewEvent :: bool
  selectedEvent :: "cal_event option"
  attendances :: "attendance list"
  newEvent :: new_event_form

definition attendances_url :: "ident \<Rightarrow> string" where
  "attendances_url eventId = ''/events/'' @ eventId @ ''/attendances''"

definition attend_url :: "ident \<Rightarrow> string" where
  "attend_url eventId = ''/events/'' @ eventId @ ''/attend''"

definition fetchAttendances ::
  "events_state \<Rightarrow> ident \<Rightarrow> attendance list response \<Rightarrow> events_state \<times> effect list" where
  "fetchAttendances st eventId resp =
     (case resp of
        Resolved as \<Rightarrow> (st\<lparr>attendances := as\<rparr>, [Request GET (attendances_url eventId)])
      | Rejected \<Rightarrow> (st, [Request GET (attendances_url eventId), ToastError]))"

definition empty_new_event :: new_event_form where
  "empty_new_event =
     \<lparr>ne_title = [], ne_description = [], ne_location = [], ne_start_date = [],
      ne_end_date = [], ne_category = ''general''\<rparr>"

definition handleCreateEvent ::
  "events_state \<Rightarrow> cal_event response \<Rightarrow> events_state \<times> effect list" where
  "handleCreateEvent st resp =
     (if blank (ne_title (newEvent st)) \<or> ne_start_date (newEvent st) = []
         \<or> ne_end_date (newEvent st) = []
      then (st, [ToastError])
      else case resp of
        Resolved e \<Rightarrow>
          (st\<lparr>all_events := all_events st @ [e], newEvent := empty_new_event,
              showNewEvent := False\<rparr>,
           [Request POST ''/events'', ToastSuccess])
      | Rejected \<Rightarrow> (st, [Request POST ''/events'', ToastError]))"

definition handleDeleteEvent ::
  "events_state \<Rightarrow> ident \<Rightarrow> bool \<Rightarrow> unit response \<Rightarrow> events_state \<times> effect list" where
  "handleDeleteEvent st eid confirmed resp =
     (if \<not> confirmed then (st, [Confirm False])
      else case resp of
        Resolved u \<Rightarrow>
          (st\<lparr>all_events := filter (\<lambda>e. ev_id e \<noteq> eid) (all_events st),
              selectedEvent := None\<rparr>,
           [Confirm True, Request DELETE (''/events/'' @ eid), ToastSuccess])
      | Rejected \<Rightarrow> (st, [Confirm True, Request DELETE (''/events/'' @ eid), ToastError]))"

text \<open>\<open>selectedEvent && selectedEvent.id === eventId\<close>\<close>

definition is_selected :: "events_state \<Rightarrow> ident \<Rightarrow> bool" where
  "is_selected st eventId =
     (case selectedEvent st of None \<Rightarrow> False | Some e \<Rightarrow> ev_id e = eventId)"

text \<open>
  \<open>handleAttendance\<close> awaits the write and then starts \<open>fetchAttendances\<close>, which has its
  own response \<open>fetched\<close> and its own \<open>catch\<close>.
\<close>

definition handleAttendance ::
  "events_state \<Rightarrow> ident \<Rightarrow> string \<Rightarrow> unit response \<Rightarrow> attendance list response
     \<Rightarrow> events_state \<times> effect list" where
  "handleAttendance st eventId status resp fetched =
     (case resp of
        Rejected \<Rightarrow> (st, [Request POST (attend_url eventId), ToastError])
      | Resolved u \<Rightarrow>
          (if is_selected st eventId
           then (fst (fetchAttendances st eventId fetched),
                 [Request POST (attend_url eventId), ToastSuccess]
                   @ snd (fetchAttendances st eventId fetched))
           else (st, [Request POST (attend_url eventId), ToastSuccess])))"

text \<open>What the event panel derives from the roster on every render.\<close>

definition userAttendance :: "events_state \<Rightarrow> ident \<Rightarrow> attendance option" where
  "userAttendance st userId =
     (case selectedEvent st of
        None \<Rightarrow> None
      | Some e \<Rightarrow> find (\<lambda>a. att_user_id a = userId) (attendances st))"

definition attendingCount :: "events_state \<Rightarrow> nat" where
  "attendingCount st = length (filter (\<lambda>a. att_status a = ''attending'') (attendances st))"

section \<open>Admin panel\<close>

record user =
  usr_id :: ident
  usr_name :: js_string
  usr_email :: js_string
  role :: string
  usr_created_at :: string

record stats =
  total_users :: nat
  total_posts :: nat
  total_events :: nat
  total_announcements :: nat

record admin_state =
  admin_stats :: "stats option"
  users :: "user list"

definition fetchStats :: "admin_state \<Rightarrow> stats response \<Rightarrow> admin_state \<times> effect list" where
  "fetchStats st resp =
     (case resp of
        Resolved s \<Rightarrow> (st\<lparr>admin_stats := Some s\<rparr>, [Request GET ''/admin/stats''])
      | Rejected \<Rightarrow> (st, [Request GET ''/admin/stats'', ToastError]))"

definition handleDeleteUser ::
  "admin_state \<Rightarrow> ident \<Rightarrow> bool \<Rightarrow> unit response \<Rightarrow> stats response
     \<Rightarrow> admin_state \<times> effect list" where
  "handleDeleteUser st userId confirmed resp fetched =
     (if \<not> confirmed then (st, [Confirm False])
      else case resp of
        Resolved x \<Rightarrow>
          (let st' = st\<lparr>users := filter (\<lambda>u. usr_id u \<noteq> userId) (users st)\<rparr>
           in (fst (fetchStats st' fetched),
               [Confirm True, Request DELETE (''/admin/users/'' @ userId), ToastSuccess]
                 @ snd (fetchStats st' fetched)))
      | Rejected \<Rightarrow>
          (st, [Confirm True, Request DELETE (''/admin/users/'' @ userId), ToastError]))"

definition newRole :: "string \<Rightarrow> string" where
  "newRole currentRole = (if currentRole = ''admin'' then ''member'' else ''admin'')"

definition handleToggleRole ::
  "admin_state \<Rightarrow> ident \<Rightarrow> string \<Rightarrow> bool \<Rightarrow> unit response \<Rightarrow> admin_state \<times> effect list" where
  "handleToggleRole st userId currentRole confirmed resp =
     (if \<not> confirmed then (st, [Confirm False])
      else case resp of
        Resolved x \<Rightarrow>
          (st\<lparr>users := map (\<lambda>u. if usr_id u = userId then u\<lparr>role := newRole currentRole\<rparr> else u)
                          (users st)\<rparr>,
           [Confirm True,
            Request PUT (''/admin/users/'' @ userId @ ''/role?role='' @ newRole currentRole),
            ToastSuccess])
      | Rejected \<Rightarrow>
          (st, [Confirm True,
                Request PUT (''/admin/users/'' @ userId @ ''/role?role='' @ newRole currentRole),
                ToastError]))"

section \<open>Announcements\<close>

record announcement =
  ann_id :: ident
  ann_title :: js_string
  ann_content :: js_string
  ann_category :: string

record new_announcement_form =
  na_title :: js_string
  na_content :: js_string
  na_category :: string

record announcements_state =
  announcements :: "announcement list"
  showNewAnnouncement :: bool
  newAnnouncement :: new_announcement_form

definition empty_new_announcement :: new_announcement_form where
  "empty_new_announcement = \<lparr>na_title = [], na_content = [], na_category = ''general''\<rparr>"

definition handleCreateAnnouncement ::
  "announcements_state \<Rightarrow> announcement response \<Rightarrow> announcements_state \<times> effect list" where
  "handleCreateAnnouncement st resp =
     (if blank (na_title (newAnnouncement st)) \<or> blank (na_content (newAnnouncement st))
      then (st, [ToastError])
      else case resp of
        Resolved a \<Rightarrow>
          (st\<lparr>announcements := a # announcements st,
              newAnnouncement := empty_new_announcement, showNewAnnouncement := False\<rparr>,
           [Request POST ''/announcements'', ToastSuccess])
      | Rejected \<Rightarrow> (st, [Request POST ''/announcements'', ToastError]))"

definition handleDeleteAnnouncement ::
  "announcements_state \<Rightarrow> ident \<Rightarrow> bool \<Rightarrow> unit response
     \<Rightarrow> announcements_state \<times> effect list" where
  "handleDeleteAnnouncement st aid confirmed resp =
     (if \<not> confirmed then (st, [Confirm False])
      else case resp of
        Resolved u \<Rightarrow>
          (st\<lparr>announcements := filter (\<lambda>a. ann_id a \<noteq> aid) (announcements st)\<rparr>,
           [Confirm True, Request DELETE (''/announcements/'' @ aid), ToastSuccess])
      | Rejected \<Rightarrow>
          (st, [Confirm True, Request DELETE (''/announcements/'' @ aid), ToastError]))"

section \<open>Profile\<close>

record profile_form =
  pf_name :: js_string
  pf_avatar :: js_string
  pf_bio :: js_string
  pf_position :: js_string
  pf_phone :: js_string
  pf_location :: js_string

record profile_state =
  profile_user :: "user option"
  editing :: bool
  formData :: profile_form

definition handleSaveProfile ::
  "profile_state \<Rightarrow> user response \<Rightarrow> profile_state \<times> effect list" where
  "handleSaveProfile st resp =
     (case resp of
        Resolved u \<Rightarrow>
          (st\<lparr>profile_user := Some u, editing := False\<rparr>,
           [Request PUT ''/users/profile'', ToastSuccess, Reload])
      | Rejected \<Rightarrow> (st, [Request PUT ''/users/profile'', ToastError]))"

section \<open>Sample data\<close>

definition sample_event :: "ident \<Rightarrow> int \<Rightarrow> int \<Rightarrow> cal_event" where
  "sample_event i s e = \<lparr>ev_id = i, title = [], start_date = s, end_date = e\<rparr>"

definition sample_feed :: feed_state where
  "sample_feed =
     \<lparr>posts = [], events = [], showNewPost = False, newPost = empty_new_post,
      categoryFilter = ''all''\<rparr>"

definition sample_post :: "ident \<Rightarrow> post" where
  "sample_post i =
     \<lparr>post_id = i, post_user_id = ''u1'', post_user_name = [0x41, 0x6E, 0x61],
      post_content = [0x68, 0x69], post_category = ''general'', likes = Some []\<rparr>"

definition sample_comment :: "ident \<Rightarrow> comment" where
  "sample_comment i =
     \<lparr>comment_id = i, comment_user_id = ''u1'', comment_user_name = [0x41, 0x6E, 0x61],
      comment_content = [0x6F, 0x6B]\<rparr>"

definition sample_user :: "ident \<Rightarrow> string \<Rightarrow> user" where
  "sample_user i r =
     \<lparr>usr_id = i, usr_name = [0x41, 0x6E, 0x61], usr_email = [0x61, 0x40, 0x62],
      role = r, usr_created_at = ''2024-01-01''\<rparr>"

definition sample_attendance :: "ident \<Rightarrow> string \<Rightarrow> attendance" where
  "sample_attendance u s =
     \<lparr>att_id = ''a-'' @ u, att_event_id = ''e1'', att_user_id = u,
      att_user_name = [0x41, 0x6E, 0x61], att_status = s\<rparr>"

definition sample_events :: events_state where
  "sample_events =
     \<lparr>all_events = [sample_event ''e1'' 10 20, sample_event ''e2'' 30 40],
      showNewEvent = False, selectedEvent = Some (sample_event ''e1'' 10 20),
      attendances = [sample_attendance ''u2'' ''maybe''], newEvent = empty_new_event\<rparr>"

section \<open>Sorting lemmas\<close>

lemma insert_by_insort_key:
  "insert_by (\<lambda>a b. f a - f b) x ys = insort_key f x ys"
  by (induction ys) auto

lemma js_sort_sort_key:
  "js_sort (\<lambda>a b. (f a :: int) - f b) xs = sort_key f xs"
  unfolding js_sort_def sort_key_def
  by (induction xs) (simp_all add: insert_by_insort_key)

lemma upcoming_sort_key:
  "upcoming now evs = take 5 (sort_key start_date (filter (\<lambda>e. now < end_date e) evs))"
  by (simp add: upcoming_def js_sort_sort_key)

lemma take_drop_sorted_le:
  assumes "sorted (map f xs)" "a \<in> set (take n xs)" "b \<in> set (drop n xs)"
  shows "f a \<le> f b"
proof -
  have "sorted (map f (take n xs) @ map f (drop n xs))"
    using assms(1) by (simp flip: map_append)
  then show ?thesis using assms(2,3) by (auto simp: sorted_append)
qed

lemma mset_minus_take: "mset xs - mset (take n xs) = mset (drop n xs)"
proof -
  have "mset xs = mset (take n xs) + mset (drop n xs)"
    by (simp flip: mset_append)
  then show ?thesis by simp
qed

section \<open>Upcoming events of the feed sidebar\<close>

text \<open>
  C1. When the events request resolves with the list \<open>evs\<close> at time \<open>now\<close>, the sidebar
  holds the events of \<open>evs\<close> whose end is strictly after \<open>now\<close>, stably sorted by start
  and cut to the first five: it is sorted ascending by start, it is a sub-multiset of
  the events that end after \<open>now\<close>, it has five entries or all of them when there are
  fewer (then it is exactly those events), and every event left out starts no earlier
  than every event shown.
\<close>

theorem upcoming_events_derivation:
  "events (fst (fetchUpcomingEvents st now (Resolved evs))) = upcoming now evs
    \<and> upcoming now evs
        = take 5 (sort_key start_date (filter (\<lambda>e. now < end_date e) evs))
    \<and> sorted (map start_date (upcoming now evs))
    \<and> mset (upcoming now evs) \<subseteq># mset (filter (\<lambda>e. now < end_date e) evs)
    \<and> length (upcoming now evs) = min 5 (length (filter (\<lambda>e. now < end_date e) evs))
    \<and> (length (filter (\<lambda>e. now < end_date e) evs) \<le> 5 \<longrightarrow>
          mset (upcoming now evs) = mset (filter (\<lambda>e. now < end_date e) evs))
    \<and> (\<forall>e \<in># mset (filter (\<lambda>e. now < end_date e) evs) - mset (upcoming now evs).
          \<forall>s \<in> set (upcoming now evs). start_date s \<le> start_date e)"
proof -
  let ?F = "filter (\<lambda>e. now < end_date e) evs"
  let ?S = "sort_key start_date ?F"
  have u: "upcoming now evs = take 5 ?S"
    by (simp add: upcoming_sort_key)
  have srt: "sorted (map start_date ?S)" by simp
  have s1: "sorted (map start_date (take 5 ?S))"
    using srt by (simp add: take_map[symmetric] sorted_wrt_take del: sorted_sort_key)
  have "mset (take 5 ?S) \<subseteq># mset ?S"
    by (metis append_take_drop_id mset_append mset_subset_eq_add_left)
  then have s2: "mset (take 5 ?S) \<subseteq># mset ?F" by simp
  have s3: "length (take 5 ?S) = min 5 (length ?F)" by simp
  have s5: "length ?F \<le> 5 \<longrightarrow> mset (take 5 ?S) = mset ?F" by simp
  have "mset ?F - mset (take 5 ?S) = mset (drop 5 ?S)"
    using mset_minus_take[of ?S 5] by simp
  then have s4: "\<forall>e \<in># mset ?F - mset (take 5 ?S).
                   \<forall>s \<in> set (take 5 ?S). start_date s \<le> start_date e"
    using take_drop_sorted_le[OF srt] by auto
  show ?thesis
    unfolding u[symmetric] using u s1 s2 s3 s4 s5 by (simp add: fetchUpcomingEvents_def)
qed

text \<open>
  Seven events, the first already over at time 100 and the other six ending at 101 to
  106, listed latest start first: the five shown are the five earliest starts among
  the six, and the sixth (start 60) is no earlier than any of them.
\<close>

theorem upcoming_events_derivation_witness:
  "map ev_id (events (fst (fetchUpcomingEvents sample_feed 100 (Resolved
      [sample_event ''a'' 70 99, sample_event ''b'' 60 101, sample_event ''c'' 50 102,
       sample_event ''d'' 40 103, sample_event ''e'' 30 104, sample_event ''f'' 20 105,
       sample_event ''g'' 10 106]))))
     = [''g'', ''f'', ''e'', ''d'', ''c'']
   \<and> map start_date (upcoming 100
      [sample_event ''a'' 70 99, sample_event ''b'' 60 101, sample_event ''c'' 50 102,
       sample_event ''d'' 40 103, sample_event ''e'' 30 104, sample_event ''f'' 20 105,
       sample_event ''g'' 10 106]) = [10, 20, 30, 40, 50]
   \<and> start_date (sample_event ''b'' 60 101) = 60"
  using upcoming_events_derivation [of sample_feed 100
      "[sample_event ''a'' 70 99, sample_event ''b'' 60 101, sample_event ''c'' 50 102,
       sample_event ''d'' 40 103, sample_event ''e'' 30 104, sample_event ''f'' 20 105,
       sample_event ''g'' 10 106]"]
  by (simp add: sample_event_def)

section \<open>Blank strings and list lemmas\<close>

lemma dropWhile_all_iff: "(\<forall>x \<in> set (dropWhile P s). P x) \<longleftrightarrow> dropWhile P s = []"
proof
  assume a: "\<forall>x \<in> set (dropWhile P s). P x"
  show "dropWhile P s = []"
  proof (rule ccontr)
    assume n: "dropWhile P s \<noteq> []"
    then have "\<not> P (hd (dropWhile P s))" by (rule hd_dropWhile)
    moreover have "hd (dropWhile P s) \<in> set (dropWhile P s)" using n by simp
    ultimately show False using a by blast
  qed
next
  assume "dropWhile P s = []"
  then show "\<forall>x \<in> set (dropWhile P s). P x" by (simp del: dropWhile_eq_Nil_conv)
qed

lemma blank_iff: "blank s \<longleftrightarrow> (\<forall>c \<in> set s. js_whitespace c)"
proof -
  have "blank s \<longleftrightarrow> (\<forall>x \<in> set (dropWhile js_whitespace s). js_whitespace x)"
    unfolding blank_def trim_def by (simp only: rev_is_Nil_conv dropWhile_eq_Nil_conv set_rev)
  also have "\<dots> \<longleftrightarrow> dropWhile js_whitespace s = []" by (rule dropWhile_all_iff)
  also have "\<dots> \<longleftrightarrow> (\<forall>c \<in> set s. js_whitespace c)" by (simp only: dropWhile_eq_Nil_conv)
  finally show ?thesis .
qed

lemma filter_neq_distinct:
  assumes "distinct (map f (xs @ p # ys))"
  shows "filter (\<lambda>q. f q \<noteq> f p) (xs @ p # ys) = xs @ ys"
proof -
  have "f p \<notin> f ` set xs" "f p \<notin> f ` set ys" using assms by auto
  then have "\<forall>q \<in> set xs. f q \<noteq> f p" "\<forall>q \<in> set ys. f q \<noteq> f p" by (metis imageI)+
  then show ?thesis by (simp add: filter_id_conv)
qed

section \<open>Deleting a post\<close>

text \<open>
  C7. In a post list with unique ids that contains \<open>postId\<close>, a delete that the user
  confirmed and the server acknowledged takes out exactly the one entry with that id:
  the list splits as \<open>xs @ p # ys\<close> around it and becomes \<open>xs @ ys\<close>, one entry shorter,
  the rest of the state untouched. The request goes out after the confirmation, and
  the list changes only when the server acknowledged: a rejected delete and a declined
  prompt leave the state as it was.
\<close>

theorem delete_post_removes_one:
  assumes "distinct (map post_id (posts st))" and "postId \<in> post_id ` set (posts st)"
  shows "(\<exists>xs p ys. posts st = xs @ p # ys \<and> post_id p = postId
            \<and> fst (handleDeletePost st postId True (Resolved ())) = st\<lparr>posts := xs @ ys\<rparr>)
    \<and> length (posts (fst (handleDeletePost st postId True (Resolved ())))) + 1
         = length (posts st)
    \<and> snd (handleDeletePost st postId True (Resolved ()))
         = [Confirm True, Request DELETE (''/posts/'' @ postId), ToastSuccess]
    \<and> fst (handleDeletePost st postId True Rejected) = st
    \<and> handleDeletePost st postId False resp = (st, [Confirm False])"
proof -
  from assms(2) obtain p where "p \<in> set (posts st)" "post_id p = postId" by auto
  then obtain xs ys where sp: "posts st = xs @ p # ys" by (auto dest: split_list)
  have f: "filter (\<lambda>q. post_id q \<noteq> postId) (posts st) = xs @ ys"
    using filter_neq_distinct[of post_id xs p ys] assms(1) sp \<open>post_id p = postId\<close> by simp
  have a: "fst (handleDeletePost st postId True (Resolved ())) = st\<lparr>posts := xs @ ys\<rparr>"
    by (simp add: handleDeletePost_def f)
  have b: "length (posts (fst (handleDeletePost st postId True (Resolved ())))) + 1
         = length (posts st)" by (simp add: a sp)
  show ?thesis using a b sp \<open>post_id p = postId\<close>
    by (auto simp: handleDeletePost_def)
qed

theorem delete_post_removes_one_witness:
  "distinct (map post_id [sample_post ''p1'', sample_post ''p2'', sample_post ''p3''])
   \<and> ''p2'' \<in> post_id ` set [sample_post ''p1'', sample_post ''p2'', sample_post ''p3'']
   \<and> posts (fst (handleDeletePost
        (sample_feed\<lparr>posts := [sample_post ''p1'', sample_post ''p2'', sample_post ''p3'']\<rparr>)
        ''p2'' True (Resolved ())))
       = [sample_post ''p1'', sample_post ''p3'']"
  using delete_post_removes_one
    [of "sample_feed\<lparr>posts := [sample_post ''p1'', sample_post ''p2'', sample_post ''p3'']\<rparr>"
        "''p2''"]
  by (simp add: sample_post_def handleDeletePost_def)

section \<open>Creating a post\<close>

lemma handleCreatePost_blank:
  "blank (np_content (newPost st)) \<Longrightarrow> handleCreatePost st resp = (st, [ToastError])"
  by (simp add: handleCreatePost_def)

lemma handleCreatePost_ok:
  "\<not> blank (np_content (newPost st)) \<Longrightarrow> handleCreatePost st (Resolved p)
          = (st\<lparr>posts := p # posts st, newPost := empty_new_post, showNewPost := False\<rparr>,
             [Request POST ''/posts'', ToastSuccess])"
  by (simp add: handleCreatePost_def)

text \<open>
  C9. When the content of the new post is blank (every code unit is white space, the
  empty string included), \<open>handleCreatePost\<close> issues no request and leaves the state,
  the post list with it, unchanged. When the content has a code unit that is not white
  space and the server accepts the post, the returned post is put in front of the
  list and the posts that were there follow unchanged.
\<close>

theorem create_post_guard:
  "((\<forall>c \<in> set (np_content (newPost st)). js_whitespace c) \<longrightarrow>
       fst (handleCreatePost st resp) = st
       \<and> filter is_request (snd (handleCreatePost st resp)) = [])
   \<and> ((\<exists>c \<in> set (np_content (newPost st)). \<not> js_whitespace c) \<longrightarrow>
       posts (fst (handleCreatePost st (Resolved p))) = p # posts st
       \<and> snd (handleCreatePost st (Resolved p)) = [Request POST ''/posts'', ToastSuccess])"
proof (intro conjI impI)
  assume "\<forall>c \<in> set (np_content (newPost st)). js_whitespace c"
  then have b: "blank (np_content (newPost st))" by (simp only: blank_iff)
  show "fst (handleCreatePost st resp) = st"
    by (simp only: handleCreatePost_blank[OF b] fst_conv)
  show "filter is_request (snd (handleCreatePost st resp)) = []"
    by (simp add: handleCreatePost_blank[OF b])
next
  assume "\<exists>c \<in> set (np_content (newPost st)). \<not> js_whitespace c"
  then have b: "\<not> blank (np_content (newPost st))" by (simp only: blank_iff) blast
  show "posts (fst (handleCreatePost st (Resolved p))) = p # posts st"
    by (simp add: handleCreatePost_ok[OF b])
  show "snd (handleCreatePost st (Resolved p)) = [Request POST ''/posts'', ToastSuccess]"
    by (simp only: handleCreatePost_ok[OF b] snd_conv)
qed

theorem create_post_guard_witness:
  "list_all js_whitespace [0x20, 0x9]
   \<and> filter is_request (snd (handleCreatePost
        (sample_feed\<lparr>newPost := empty_new_post\<lparr>np_content := [0x20, 0x9]\<rparr>\<rparr>) Rejected)) = []
   \<and> \<not> list_all js_whitespace [0x68, 0x69]
   \<and> posts (fst (handleCreatePost
        (sample_feed\<lparr>posts := [sample_post ''p1''],
                     newPost := empty_new_post\<lparr>np_content := [0x68, 0x69]\<rparr>\<rparr>)
        (Resolved (sample_post ''p2''))))
       = [sample_post ''p2'', sample_post ''p1'']"
  using create_post_guard
    [of "sample_feed\<lparr>newPost := empty_new_post\<lparr>np_content := [0x20, 0x9]\<rparr>\<rparr>" Rejected]
    create_post_guard
    [of "sample_feed\<lparr>posts := [sample_post ''p1''],
                     newPost := empty_new_post\<lparr>np_content := [0x68, 0x69]\<rparr>\<rparr>"
        _ "sample_post ''p2''"]
  by (simp add: js_whitespace_def)

section \<open>Like toggle\<close>

lemma single_user_length:
  "set ls \<subseteq> {u} \<Longrightarrow> distinct ls \<Longrightarrow> length ls = (if u \<in> set ls then 1 else 0)"
  by (cases ls; cases "tl ls") auto

lemma like_inv_step:
  assumes "like_inv u (srv, st)"
  shows "like_inv u (server_toggle_like u srv,
        fst (handleLike st p (Resolved (length (server_toggle_like u srv)))))"
  using assms by (auto simp: like_inv_def server_toggle_like_def handleLike_def distinct_removeAll)

lemma like_inv_rounds: "like_inv u cfg \<Longrightarrow> like_inv u (like_rounds k u p cfg)"
proof (induction k arbitrary: cfg)
  case 0
  then show ?case by simp
next
  case (Suc k)
  obtain srv st where c: "cfg = (srv, st)" by (cases cfg)
  show ?case using Suc.IH[OF like_inv_step[of u srv st p]] Suc.prems c by simp
qed

lemma like_inv_mount:
  "set (post_likes p) \<subseteq> {u} \<Longrightarrow> distinct (post_likes p) \<Longrightarrow> like_inv u (post_likes p, mount_post p u)"
  by (auto simp: like_inv_def mount_post_def post_likes_def split: option.splits)

lemma like_inv_parity: "like_inv u cfg \<Longrightarrow> liked (snd cfg) = odd (likesCount (snd cfg))"
  using single_user_length[of "fst cfg" u] by (auto simp: like_inv_def)

text \<open>
  C2. A successful like toggle shows the count of the response and negates \<open>liked\<close>, so
  two successful toggles in a row give back the boolean they started from. When only
  the user \<open>u\<close> ever likes the post (the like set holds nobody else, in particular when
  the post starts with no likes), then after any number of successful toggles from the
  mounted card the boolean is the parity of the count shown: liked exactly when the
  count is odd. The count shown is the size of the server's like set and \<open>liked\<close> is
  the membership of \<open>u\<close> in it.
\<close>

theorem like_toggle:
  "likesCount (fst (handleLike st p (Resolved n))) = n
   \<and> liked (fst (handleLike st p (Resolved n))) = (\<not> liked st)
   \<and> liked (fst (handleLike (fst (handleLike st p (Resolved n))) p (Resolved m))) = liked st
   \<and> (set (post_likes p) \<subseteq> {u} \<and> distinct (post_likes p) \<longrightarrow>
        liked (snd (like_rounds k u p (post_likes p, mount_post p u)))
          = odd (likesCount (snd (like_rounds k u p (post_likes p, mount_post p u))))
        \<and> likesCount (snd (like_rounds k u p (post_likes p, mount_post p u)))
          = length (fst (like_rounds k u p (post_likes p, mount_post p u)))
        \<and> liked (snd (like_rounds k u p (post_likes p, mount_post p u)))
          = (u \<in> set (fst (like_rounds k u p (post_likes p, mount_post p u)))))"
proof -
  have a: "likesCount (fst (handleLike st p (Resolved n))) = n"
    and b: "liked (fst (handleLike st p (Resolved n))) = (\<not> liked st)"
    and c: "liked (fst (handleLike (fst (handleLike st p (Resolved n))) p (Resolved m))) = liked st"
    by (simp_all add: handleLike_def)
  have d: "like_inv u (like_rounds k u p (post_likes p, mount_post p u))"
    if "set (post_likes p) \<subseteq> {u}" "distinct (post_likes p)"
    using like_inv_rounds[OF like_inv_mount[OF that]] .
  show ?thesis
    using a b c like_inv_parity[OF d] d by (auto simp: like_inv_def)
qed

theorem like_toggle_witness:
  "set (post_likes (sample_post ''p1'')) \<subseteq> {''u1''} \<and> distinct (post_likes (sample_post ''p1''))
   \<and> liked (snd (like_rounds 3 ''u1'' (sample_post ''p1'')
        (post_likes (sample_post ''p1''), mount_post (sample_post ''p1'') ''u1'')))
   \<and> likesCount (snd (like_rounds 3 ''u1'' (sample_post ''p1'')
        (post_likes (sample_post ''p1''), mount_post (sample_post ''p1'') ''u1''))) = 1
   \<and> \<not> liked (snd (like_rounds 2 ''u1'' (sample_post ''p1'')
        (post_likes (sample_post ''p1''), mount_post (sample_post ''p1'') ''u1'')))"
  using like_toggle [of _ "sample_post ''p1''" _ _ "''u1''" 3]
  by (simp add: sample_post_def post_likes_def mount_post_def handleLike_def
      server_toggle_like_def numeral_3_eq_3 numeral_2_eq_2)

section \<open>Initials\<close>

lemma split_on_first_units:
  "join_units (map first_unit (split_on sp cs)) = map hd (words_by (\<lambda>c. c = sp) cs)
   \<and> join_units (map first_unit (tl (split_on sp cs)))
       = map hd (words_by (\<lambda>c. c = sp) (dropWhile (\<lambda>c. c \<noteq> sp) cs))"
proof (induction cs)
  case Nil
  show ?case by (simp add: join_units_def first_unit_def)
next
  case (Cons c cs)
  show ?case
  proof (cases "c = sp")
    case True
    then show ?thesis using Cons by (simp add: join_units_def first_unit_def)
  next
    case False
    then show ?thesis using Cons by (simp add: join_units_def first_unit_def)
  qed
qed

text \<open>
  C10, as amended. For every string \<open>name\<close> and whatever the host's upper-casing does,
  \<open>getInitials\<close> returns at most two code units: the upper-cased first code units of the
  words of \<open>name\<close> that the space character U+0020 separates, in order, cut to two.
  Empty pieces between consecutive spaces contribute nothing, and the empty string
  gives the empty string.
\<close>

theorem getInitials_space_words:
  "getInitials upper name = initials_of_words (\<lambda>c. c = 0x20) upper name
   \<and> length (getInitials upper name) \<le> 2"
  by (simp add: getInitials_def initials_of_words_def split_on_first_units)

text \<open>
  The name \<open>a<TAB>b\<close> has the two white-space separated words \<open>a\<close> and \<open>b\<close>, whose
  initials are \<open>AB\<close>; \<open>split(' ')\<close> does not split at the tab and \<open>getInitials\<close> returns \<open>A\<close>.
\<close>

theorem getInitials_whitespace_counterexample:
  "getInitials ascii_upper [0x61, 0x9, 0x62] = [0x41]
   \<and> initials_of_words js_whitespace ascii_upper [0x61, 0x9, 0x62] = [0x41, 0x42]
   \<and> getInitials ascii_upper [0x61, 0x9, 0x62]
        \<noteq> initials_of_words js_whitespace ascii_upper [0x61, 0x9, 0x62]"
  by (simp add: getInitials_def initials_of_words_def ascii_upper_def join_units_def
      first_unit_def js_whitespace_def)

section \<open>Failed mutations\<close>

text \<open>
  C3. When the server call of a mutation handler fails, the handler leaves the state of
  its view exactly as it was: this holds for creating and deleting a post, liking,
  adding and deleting a comment, creating and deleting an event, marking attendance,
  deleting a user, toggling a role, creating and deleting an announcement and saving
  the profile, whatever the other inputs are. No list gains, loses or changes an
  element and no counter moves. What the failure leaves behind is the error
  notification after the request.
\<close>

theorem failed_mutation_keeps_state:
  "fst (handleCreatePost fs Rejected) = fs
   \<and> fst (handleDeletePost fs postId c1 Rejected) = fs
   \<and> fst (handleLike ps p Rejected) = ps
   \<and> fst (handleComment ps p Rejected) = ps
   \<and> fst (handleDeleteComment ps commentId c2 Rejected) = ps
   \<and> fst (handleCreateEvent es Rejected) = es
   \<and> fst (handleDeleteEvent es eid c3 Rejected) = es
   \<and> fst (handleAttendance es eventId status Rejected fetched) = es
   \<and> fst (handleDeleteUser ad userId c4 Rejected fetched_stats) = ad
   \<and> fst (handleToggleRole ad userId currentRole c5 Rejected) = ad
   \<and> fst (handleCreateAnnouncement ans Rejected) = ans
   \<and> fst (handleDeleteAnnouncement ans aid c6 Rejected) = ans
   \<and> fst (handleSaveProfile pr Rejected) = pr
   \<and> snd (handleLike ps p Rejected)
        = [Request POST (''/posts/'' @ post_id p @ ''/like''), ToastError]
   \<and> snd (handleAttendance es eventId status Rejected fetched)
        = [Request POST (attend_url eventId), ToastError]
   \<and> snd (handleSaveProfile pr Rejected) = [Request PUT ''/users/profile'', ToastError]"
proof -
  have "fst (handleCreatePost fs Rejected) = fs"
    by (simp add: handleCreatePost_def)
  moreover have "fst (handleDeletePost fs postId c1 Rejected) = fs"
    by (simp add: handleDeletePost_def)
  moreover have "fst (handleLike ps p Rejected) = ps"
    by (simp add: handleLike_def)
  moreover have "fst (handleComment ps p Rejected) = ps"
    by (simp add: handleComment_def)
  moreover have "fst (handleDeleteComment ps commentId c2 Rejected) = ps"
    by (simp add: handleDeleteComment_def)
  moreover have "fst (handleCreateEvent es Rejected) = es"
    by (simp add: handleCreateEvent_def)
  moreover have "fst (handleDeleteEvent es eid c3 Rejected) = es"
    by (simp add: handleDeleteEvent_def)
  moreover have "fst (handleAttendance es eventId status Rejected fetched) = es"
    by (simp add: handleAttendance_def)
  moreover have "fst (handleDeleteUser ad userId c4 Rejected fetched_stats) = ad"
    by (simp add: handleDeleteUser_def)
  moreover have "fst (handleToggleRole ad userId currentRole c5 Rejected) = ad"
    by (simp add: handleToggleRole_def)
  moreover have "fst (handleCreateAnnouncement ans Rejected) = ans"
    by (simp add: handleCreateAnnouncement_def)
  moreover have "fst (handleDeleteAnnouncement ans aid c6 Rejected) = ans"
    by (simp add: handleDeleteAnnouncement_def)
  moreover have "fst (handleSaveProfile pr Rejected) = pr"
    by (simp add: handleSaveProfile_def)
  moreover have "snd (handleLike ps p Rejected)
        = [Request POST (''/posts/'' @ post_id p @ ''/like''), ToastError]"
    by (simp add: handleLike_def)
  moreover have "snd (handleAttendance es eventId status Rejected fetched)
        = [Request POST (attend_url eventId), ToastError]"
    by (simp add: handleAttendance_def)
  moreover have "snd (handleSaveProfile pr Rejected) = [Request PUT ''/users/profile'', ToastError]"
    by (simp add: handleSaveProfile_def)
  ultimately show ?thesis by blast
qed

section \<open>Confirmation before comment requests\<close>

text \<open>
  C4, as amended. Deleting a comment asks first: every request in the trace of
  \<open>handleDeleteComment\<close> comes after a confirmation that was answered yes, a declined
  prompt ends the handler with the state unchanged, and a confirmed one is followed at
  once by the DELETE request. Adding a comment has no confirmation step: with a blank
  text \<open>handleComment\<close> does nothing, and with any other text its first effect is the
  POST request.
\<close>

theorem comment_request_gates:
  "requests_confirmed False (snd (handleDeleteComment st commentId confirmed r))
   \<and> (\<not> confirmed \<longrightarrow> handleDeleteComment st commentId confirmed r = (st, [Confirm False]))
   \<and> (confirmed \<longrightarrow> take 2 (snd (handleDeleteComment st commentId confirmed r))
          = [Confirm True, Request DELETE (''/comments/'' @ commentId)])
   \<and> (blank (newComment st) \<longrightarrow> handleComment st p resp = (st, []))
   \<and> (\<not> blank (newComment st) \<longrightarrow>
          hd (snd (handleComment st p resp)) = Request POST (comments_url p))"
proof -
  have "requests_confirmed False (snd (handleDeleteComment st commentId confirmed r))"
    by (cases r) (simp_all add: handleDeleteComment_def)
  moreover have "\<not> confirmed \<longrightarrow> handleDeleteComment st commentId confirmed r = (st, [Confirm False])"
    by (simp add: handleDeleteComment_def)
  moreover have "confirmed \<longrightarrow> take 2 (snd (handleDeleteComment st commentId confirmed r))
          = [Confirm True, Request DELETE (''/comments/'' @ commentId)]"
    by (cases r) (simp_all add: handleDeleteComment_def)
  moreover have "blank (newComment st) \<longrightarrow> handleComment st p resp = (st, [])"
    by (simp add: handleComment_def)
  moreover have "\<not> blank (newComment st) \<longrightarrow>
          hd (snd (handleComment st p resp)) = Request POST (comments_url p)"
    by (cases resp) (simp_all add: handleComment_def)
  ultimately show ?thesis by blast
qed

theorem comment_request_gates_witness:
  "snd (handleDeleteComment ((mount_post (sample_post ''p1'') ''u1'')\<lparr>comments := [sample_comment ''c1'']\<rparr>)
         ''c1'' False (Resolved ())) = [Confirm False]
   \<and> snd (handleDeleteComment ((mount_post (sample_post ''p1'') ''u1'')\<lparr>comments := [sample_comment ''c1'']\<rparr>)
         ''c1'' True (Resolved ())) = [Confirm True, Request DELETE ''/comments/c1'', ToastSuccess]
   \<and> blank []
   \<and> snd (handleComment (mount_post (sample_post ''p1'') ''u1'') (sample_post ''p1'') Rejected) = []
   \<and> \<not> blank [0x68, 0x69]
   \<and> hd (snd (handleComment ((mount_post (sample_post ''p1'') ''u1'')\<lparr>newComment := [0x68, 0x69]\<rparr>)
         (sample_post ''p1'') Rejected)) = Request POST ''/posts/p1/comments''"
  using comment_request_gates
     [of "(mount_post (sample_post ''p1'') ''u1'')\<lparr>comments := [sample_comment ''c1'']\<rparr>"
         "''c1''" False "Resolved ()" "sample_post ''p1''"]
    comment_request_gates
     [of "(mount_post (sample_post ''p1'') ''u1'')\<lparr>newComment := [0x68, 0x69]\<rparr>"
         "''c1''" True "Resolved ()" "sample_post ''p1''" Rejected]
  by (simp add: handleDeleteComment_def handleComment_def mount_post_def sample_post_def
      comments_url_def blank_def trim_def js_whitespace_def)

text \<open>
  With the text \<open>hi\<close> in the comment box, \<open>handleComment\<close> posts the comment and no
  confirmation comes before the request.
\<close>

theorem add_comment_unconfirmed_counterexample:
  "snd (handleComment ((mount_post (sample_post ''p1'') ''u1'')\<lparr>newComment := [0x68, 0x69]\<rparr>)
         (sample_post ''p1'') (Resolved (sample_comment ''c1'')))
     = [Request POST ''/posts/p1/comments'', ToastSuccess]
   \<and> \<not> requests_confirmed False
        (snd (handleComment ((mount_post (sample_post ''p1'') ''u1'')\<lparr>newComment := [0x68, 0x69]\<rparr>)
           (sample_post ''p1'') (Resolved (sample_comment ''c1''))))"
  by (simp add: handleComment_def mount_post_def sample_post_def comments_url_def
      blank_def trim_def js_whitespace_def)

section \<open>Toggling a cached comment thread\<close>

text \<open>
  C5, as amended. When the comment list held by the card is not empty, \<open>fetchComments\<close>
  issues no request and only negates the visibility flag: the comment list and every
  other field stay as they are, and a second toggle gives back the state before the
  first.
\<close>

theorem cached_thread_toggle:
  assumes "comments st \<noteq> []"
  shows "fetchComments st p resp = (st\<lparr>showComments := \<not> showComments st\<rparr>, [])
    \<and> comments (fst (fetchComments st p resp)) = comments st
    \<and> fst (fetchComments (fst (fetchComments st p resp)) p resp') = st"
  using assms by (simp add: fetchComments_def)

theorem cached_thread_toggle_witness:
  "comments ((mount_post (sample_post ''p1'') ''u1'')\<lparr>comments := [sample_comment ''c1'']\<rparr>) \<noteq> []
   \<and> snd (fetchComments ((mount_post (sample_post ''p1'') ''u1'')\<lparr>comments := [sample_comment ''c1'']\<rparr>)
        (sample_post ''p1'') Rejected) = []
   \<and> showComments (fst (fetchComments ((mount_post (sample_post ''p1'') ''u1'')\<lparr>comments := [sample_comment ''c1'']\<rparr>)
        (sample_post ''p1'') Rejected))"
  using cached_thread_toggle
     [of "(mount_post (sample_post ''p1'') ''u1'')\<lparr>comments := [sample_comment ''c1'']\<rparr>"
         "sample_post ''p1''" Rejected]
  by (simp add: mount_post_def)

text \<open>
  A thread that was loaded once and has no comments: the card holds the empty list and
  shows the thread. The next click on the comments button fetches again, and the
  thread stays visible instead of being hidden.
\<close>

theorem empty_thread_refetch_counterexample:
  "comments (fst (fetchComments (mount_post (sample_post ''p1'') ''u1'') (sample_post ''p1'')
       (Resolved []))) = []
   \<and> showComments (fst (fetchComments (mount_post (sample_post ''p1'') ''u1'')
       (sample_post ''p1'') (Resolved [])))
   \<and> snd (fetchComments
        (fst (fetchComments (mount_post (sample_post ''p1'') ''u1'') (sample_post ''p1'')
           (Resolved [])))
        (sample_post ''p1'') (Resolved []))
       = [Request GET ''/posts/p1/comments'']
   \<and> showComments (fst (fetchComments
        (fst (fetchComments (mount_post (sample_post ''p1'') ''u1'') (sample_post ''p1'')
           (Resolved [])))
        (sample_post ''p1'') (Resolved [])))"
  by (simp add: fetchComments_def mount_post_def sample_post_def comments_url_def)

section \<open>Role toggle\<close>

lemma newRole_flip:
  "newRole ''admin'' = ''member''" "newRole ''member'' = ''admin''"
  by (simp_all add: newRole_def)

text \<open>
  C6. After a confirmed role toggle that the server accepted, the roster has the same
  length and order; every row whose id is not \<open>userId\<close> is unchanged, and a row with
  that id differs from the old one in its role field only, which now holds the new
  role. The handler is called with the role of the clicked row
  (\<open>handleToggleRole(u.id, u.role)\<close>): when that role is one of admin and member, the
  new role of the row is the other one. The statistics are untouched and the only
  request is the PUT of the new role: the roster is not fetched again.
\<close>

theorem toggle_role_patches_row:
  "length (users (fst (handleToggleRole st userId currentRole True (Resolved ()))))
      = length (users st)
   \<and> (\<forall>i < length (users st).
        users (fst (handleToggleRole st userId currentRole True (Resolved ()))) ! i
          = (if usr_id (users st ! i) = userId
             then (users st ! i)\<lparr>role := newRole currentRole\<rparr> else users st ! i)
        \<and> usr_id (users (fst (handleToggleRole st userId currentRole True (Resolved ()))) ! i)
            = usr_id (users st ! i)
        \<and> usr_name (users (fst (handleToggleRole st userId currentRole True (Resolved ()))) ! i)
            = usr_name (users st ! i)
        \<and> usr_email (users (fst (handleToggleRole st userId currentRole True (Resolved ()))) ! i)
            = usr_email (users st ! i)
        \<and> usr_created_at
              (users (fst (handleToggleRole st userId currentRole True (Resolved ()))) ! i)
            = usr_created_at (users st ! i))
   \<and> (\<forall>i < length (users st).
        usr_id (users st ! i) = userId \<and> role (users st ! i) = currentRole
        \<and> currentRole \<in> {''admin'', ''member''} \<longrightarrow>
          role (users (fst (handleToggleRole st userId currentRole True (Resolved ()))) ! i)
            \<in> {''admin'', ''member''} - {role (users st ! i)})
   \<and> admin_stats (fst (handleToggleRole st userId currentRole True (Resolved ())))
        = admin_stats st
   \<and> snd (handleToggleRole st userId currentRole True (Resolved ()))
        = [Confirm True,
           Request PUT (''/admin/users/'' @ userId @ ''/role?role='' @ newRole currentRole),
           ToastSuccess]"
proof -
  let ?st' = "fst (handleToggleRole st userId currentRole True (Resolved ()))"
  have u: "users ?st'
      = map (\<lambda>u. if usr_id u = userId then u\<lparr>role := newRole currentRole\<rparr> else u) (users st)"
    by (simp add: handleToggleRole_def)
  have a: "length (users ?st') = length (users st)" by (simp add: u)
  have b: "users ?st' ! i = (if usr_id (users st ! i) = userId
             then (users st ! i)\<lparr>role := newRole currentRole\<rparr> else users st ! i)"
    if "i < length (users st)" for i using that by (simp add: u)
  have c: "role (users ?st' ! i) \<in> {''admin'', ''member''} - {role (users st ! i)}"
    if "i < length (users st)" "usr_id (users st ! i) = userId"
       "role (users st ! i) = currentRole" "currentRole \<in> {''admin'', ''member''}" for i
    using that b[OF that(1)] newRole_flip by auto
  have d: "admin_stats ?st' = admin_stats st" by (simp add: handleToggleRole_def)
  have e: "snd (handleToggleRole st userId currentRole True (Resolved ()))
        = [Confirm True,
           Request PUT (''/admin/users/'' @ userId @ ''/role?role='' @ newRole currentRole),
           ToastSuccess]" by (simp add: handleToggleRole_def)
  show ?thesis using a b c d e by simp
qed

theorem toggle_role_patches_row_witness:
  "users (fst (handleToggleRole
       \<lparr>admin_stats = None,
        users = [sample_user ''u1'' ''admin'', sample_user ''u2'' ''member'',
                 sample_user ''u3'' ''admin'']\<rparr>
       ''u2'' ''member'' True (Resolved ())))
     = [sample_user ''u1'' ''admin'', sample_user ''u2'' ''admin'', sample_user ''u3'' ''admin'']
   \<and> users (fst (handleToggleRole
       \<lparr>admin_stats = None,
        users = [sample_user ''u1'' ''admin'', sample_user ''u2'' ''member'',
                 sample_user ''u3'' ''admin'']\<rparr>
       ''u3'' ''admin'' True (Resolved ())))
     = [sample_user ''u1'' ''admin'', sample_user ''u2'' ''member'', sample_user ''u3'' ''member'']"
  using toggle_role_patches_row
     [of "\<lparr>admin_stats = None,
        users = [sample_user ''u1'' ''admin'', sample_user ''u2'' ''member'',
                 sample_user ''u3'' ''admin'']\<rparr>" "''u2''" "''member''"]
  by (simp add: handleToggleRole_def sample_user_def newRole_def)

section \<open>Attendance\<close>

text \<open>
  C8. After a successful attendance write for the selected event, \<open>handleAttendance\<close>
  requests the roster of that event again. When the read succeeds, the roster is
  replaced by what the server returned, nothing else in the state changes, and the
  user's status indicator and the attending count are those of the returned roster;
  when the read fails, the roster stays as it was. The state after the handler never
  depends on the status that was written: the roster is not patched locally. A write
  for an event that is not the selected one (or with no event selected) issues no
  roster request and leaves the state unchanged.
\<close>

theorem attendance_refetch:
  "(is_selected st eventId \<longrightarrow>
      handleAttendance st eventId status (Resolved ()) (Resolved roster)
        = (st\<lparr>attendances := roster\<rparr>,
           [Request POST (attend_url eventId), ToastSuccess,
            Request GET (attendances_url eventId)])
      \<and> userAttendance (fst (handleAttendance st eventId status (Resolved ()) (Resolved roster))) uid
          = find (\<lambda>a. att_user_id a = uid) roster
      \<and> attendingCount (fst (handleAttendance st eventId status (Resolved ()) (Resolved roster)))
          = length (filter (\<lambda>a. att_status a = ''attending'') roster)
      \<and> handleAttendance st eventId status (Resolved ()) Rejected
          = (st, [Request POST (attend_url eventId), ToastSuccess,
                  Request GET (attendances_url eventId), ToastError]))
   \<and> (\<not> is_selected st eventId \<longrightarrow>
        handleAttendance st eventId status (Resolved ()) fetched
          = (st, [Request POST (attend_url eventId), ToastSuccess]))
   \<and> fst (handleAttendance st eventId status resp fetched)
        = fst (handleAttendance st eventId status' resp fetched)"
proof -
  have a: "handleAttendance st eventId status (Resolved ()) (Resolved roster)
        = (st\<lparr>attendances := roster\<rparr>,
           [Request POST (attend_url eventId), ToastSuccess,
            Request GET (attendances_url eventId)])"
    and b: "handleAttendance st eventId status (Resolved ()) Rejected
          = (st, [Request POST (attend_url eventId), ToastSuccess,
                  Request GET (attendances_url eventId), ToastError])"
    if "is_selected st eventId"
    using that by (simp_all add: handleAttendance_def fetchAttendances_def)
  have c: "userAttendance (st\<lparr>attendances := roster\<rparr>) uid
          = find (\<lambda>a. att_user_id a = uid) roster" if "is_selected st eventId"
    using that by (simp add: userAttendance_def is_selected_def split: option.splits)
  have d: "attendingCount (st\<lparr>attendances := roster\<rparr>)
          = length (filter (\<lambda>a. att_status a = ''attending'') roster)"
    by (simp add: attendingCount_def)
  have e: "handleAttendance st eventId status (Resolved ()) fetched
          = (st, [Request POST (attend_url eventId), ToastSuccess])"
    if "\<not> is_selected st eventId"
    using that by (simp add: handleAttendance_def)
  have f: "fst (handleAttendance st eventId status resp fetched)
        = fst (handleAttendance st eventId status' resp fetched)"
    by (cases resp) (simp_all add: handleAttendance_def)
  show ?thesis using a b c d e f by simp
qed

theorem attendance_refetch_witness:
  "is_selected sample_events ''e1''
   \<and> attendances (fst (handleAttendance sample_events ''e1'' ''attending'' (Resolved ())
        (Resolved [sample_attendance ''u2'' ''maybe'', sample_attendance ''u1'' ''attending''])))
       = [sample_attendance ''u2'' ''maybe'', sample_attendance ''u1'' ''attending'']
   \<and> attendingCount (fst (handleAttendance sample_events ''e1'' ''attending'' (Resolved ())
        (Resolved [sample_attendance ''u2'' ''maybe'', sample_attendance ''u1'' ''attending''])))
       = 1
   \<and> \<not> is_selected sample_events ''e2''
   \<and> handleAttendance sample_events ''e2'' ''attending'' (Resolved ()) Rejected
       = (sample_events, [Request POST ''/events/e2/attend'', ToastSuccess])"
  using attendance_refetch
     [of sample_events "''e1''" "''attending''"
         "[sample_attendance ''u2'' ''maybe'', sample_attendance ''u1'' ''attending'']"
         "''u1''" Rejected "Resolved ()" "''maybe''"]
    attendance_refetch
     [of sample_events "''e2''" "''attending''" "[]" "''u1''" Rejected "Resolved ()" "''maybe''"]
  by (simp add: is_selected_def sample_events_def sample_event_def sample_attendance_def
      attend_url_def attendingCount_def)

end
